theory Spec2Isabelle
  imports Main "HOL-Library.Sublist"
begin

section \<open>lobrow: module name resolution and fork-join loading\<close>

text \<open>
  A shallow embedding of \<^verbatim>\<open>src/lobrow.js\<close>.  JavaScript strings are modelled as
  \<^typ>\<open>string\<close>; the string operations the loader uses (\<^verbatim>\<open>indexOf\<close>,
  \<^verbatim>\<open>lastIndexOf\<close>, \<^verbatim>\<open>slice\<close>, concatenation) work position by position and do
  not depend on the width of a character.  The three tables of the program
  (\<^verbatim>\<open>moduleCache\<close>, \<^verbatim>\<open>currentlyLoading\<close>, \<^verbatim>\<open>e.globalNames\<close>) are modelled by
  their own properties only: keys that name a property inherited from
  \<^verbatim>\<open>Object.prototype\<close> are outside the model.
\<close>

subsection \<open>String helpers (lines 281-296)\<close>

text \<open>\<^verbatim>\<open>str.indexOf(p)\<close>: the first position at which \<open>p\<close> occurs, or \<open>-1\<close>.\<close>

fun indexOf :: "string \<Rightarrow> string \<Rightarrow> int" where
  "indexOf [] p = (if p = [] then 0 else -1)"
| "indexOf (c # cs) p =
     (if prefix p (c # cs) then 0
      else (let r = indexOf cs p in if r < 0 then -1 else r + 1))"

text \<open>\<^verbatim>\<open>str.lastIndexOf(p)\<close>: the last position at which \<open>p\<close> occurs, or \<open>-1\<close>.\<close>

fun lastIndexOf :: "string \<Rightarrow> string \<Rightarrow> int" where
  "lastIndexOf [] p = (if p = [] then 0 else -1)"
| "lastIndexOf (c # cs) p =
     (let r = lastIndexOf cs p in
      if 0 \<le> r then r + 1 else if prefix p (c # cs) then 0 else -1)"

text \<open>
  \<^verbatim>\<open>str.slice(b, e)\<close> and \<^verbatim>\<open>str.slice(b)\<close>: a negative index counts from the end,
  and every index is clamped to the string.
\<close>

definition clampIndex :: "int \<Rightarrow> nat \<Rightarrow> nat" where
  "clampIndex i len = (if i < 0 then nat (max (int len + i) 0) else min (nat i) len)"

definition slice :: "string \<Rightarrow> int \<Rightarrow> int \<Rightarrow> string" where
  "slice s b e =
     (let from = clampIndex b (length s); to = clampIndex e (length s)
      in take (to - from) (drop from s))"

definition sliceFrom :: "string \<Rightarrow> int \<Rightarrow> string" where
  "sliceFrom s b = drop (clampIndex b (length s)) s"

definition startsWith :: "string \<Rightarrow> string \<Rightarrow> bool" where
  "startsWith str pre = (indexOf str pre = 0)"

definition endsWith :: "string \<Rightarrow> string \<Rightarrow> bool" where
  "endsWith str suf =
     (let index = lastIndexOf str suf
      in 0 \<le> index \<and> index = int (length str) - int (length suf))"

definition removePrefixMaybe :: "string \<Rightarrow> string \<Rightarrow> string" where
  "removePrefixMaybe pre str =
     (if indexOf str pre = 0 then sliceFrom str (int (length pre)) else str)"

subsection \<open>Normalized names (lines 234-266)\<close>

text \<open>
  The test \<^verbatim>\<open>/^[.][.]([/][.][.])*$/\<close>: the name is \<^verbatim>\<open>..\<close> followed by any number of
  \<^verbatim>\<open>/..\<close>, and nothing else.
\<close>

fun matchUpTail :: "string \<Rightarrow> bool" where
  "matchUpTail [] = True"
| "matchUpTail (a # b # c # r) =
     (a = CHR ''/'' \<and> b = CHR ''.'' \<and> c = CHR ''.'' \<and> matchUpTail r)"
| "matchUpTail _ = False"

fun isOnlyUp :: "string \<Rightarrow> bool" where
  "isOnlyUp (a # b # r) = (a = CHR ''.'' \<and> b = CHR ''.'' \<and> matchUpTail r)"
| "isOnlyUp _ = False"

definition CURRENT_DIRECTORY :: string where
  "CURRENT_DIRECTORY = ''''"

definition START_FILE :: string where
  "START_FILE = ''__START__''"

definition goToParentDir :: "string \<Rightarrow> string" where
  "goToParentDir name =
     (if name = '''' then ''..''
      else if isOnlyUp name then ''../'' @ name
      else (let slashIndex = lastIndexOf name ''/''
            in if slashIndex < 0 then CURRENT_DIRECTORY
               else slice name 0 slashIndex))"

definition descend :: "string \<Rightarrow> string \<Rightarrow> string" where
  "descend base path = (if length base = 0 then path else base @ ''/'' @ path)"

definition isLegalNormalizedName :: "string \<Rightarrow> bool" where
  "isLegalNormalizedName name = (\<not> endsWith name ''/'' \<and> \<not> startsWith name ''./'')"

subsection \<open>JavaScript values, errors and outcomes\<close>

text \<open>
  Module values and the entries of the Global Name Table are JavaScript values.  Objects
  and functions are opaque references; numbers are represented by the integers.
\<close>

datatype jsval =
    JUndefined | JNull | JBool bool | JNum int | JStr string | JObj nat | JFun nat

datatype jstype = TUndefined | TObject | TBoolean | TNumber | TString | TFunction

fun typeof :: "jsval \<Rightarrow> jstype" where
  "typeof JUndefined = TUndefined"
| "typeof JNull = TObject"
| "typeof (JBool _) = TBoolean"
| "typeof (JNum _) = TNumber"
| "typeof (JStr _) = TString"
| "typeof (JObj _) = TObject"
| "typeof (JFun _) = TFunction"

text \<open>The characters of a value whose type is \<^verbatim>\<open>string\<close>.\<close>

fun stringOf :: "jsval \<Rightarrow> string" where
  "stringOf (JStr s) = s"
| "stringOf _ = []"

text \<open>The truth value JavaScript gives a value in a condition.\<close>

fun truthy :: "jsval \<Rightarrow> bool" where
  "truthy JUndefined = False"
| "truthy JNull = False"
| "truthy (JBool b) = b"
| "truthy (JNum n) = (n \<noteq> 0)"
| "truthy (JStr s) = (s \<noteq> '''')"
| "truthy (JObj _) = True"
| "truthy (JFun _) = True"

text \<open>The errors the program throws, named as in the specification.\<close>

datatype error =
    IllegalBaseIdentifier string
  | UnknownGlobalName string
  | IllegalGlobalMapping jsval
  | CycleDetected string
  | FetchFailure string
  | MismatchedZipLengths

text \<open>
  A call either returns a value or throws; in both cases the state it has reached is
  kept, since nothing undoes the assignments made before a \<^verbatim>\<open>throw\<close>.
\<close>

datatype ('a, 's) outcome = Return 'a 's | Throw error 's

fun stateOf :: "('a, 's) outcome \<Rightarrow> 's" where
  "stateOf (Return _ s) = s"
| "stateOf (Throw _ s) = s"

type_synonym cache = "string \<rightharpoonup> jsval"

text \<open>\<^verbatim>\<open>obj[key]\<close> on a table: a missing property reads as \<^verbatim>\<open>undefined\<close>.\<close>

definition getProp :: "cache \<Rightarrow> string \<Rightarrow> jsval" where
  "getProp obj key = (case obj key of None \<Rightarrow> JUndefined | Some v \<Rightarrow> v)"

text \<open>\<^verbatim>\<open>e.globalNames\<close> is an object or a function (lines 170-175).\<close>

datatype globalNames = GObject cache | GFunction "string \<Rightarrow> jsval"

fun lookupGlobal :: "globalNames \<Rightarrow> string \<Rightarrow> jsval" where
  "lookupGlobal (GFunction f) importName = f importName"
| "lookupGlobal (GObject tbl) importName = getProp tbl importName"

subsection \<open>Resolving import names (lines 177-232)\<close>

text \<open>The loop of lines 202-206: one \<^verbatim>\<open>../\<close> is removed and one directory is left.\<close>

function goingUp :: "string \<Rightarrow> string \<Rightarrow> string \<times> string" where
  "goingUp baseName importName =
     (if startsWith importName ''../''
      then goingUp (goToParentDir baseName) (removePrefixMaybe ''../'' importName)
      else (baseName, importName))"
  by pat_completeness auto
termination
proof (relation "measure (\<lambda>(b, i). length i)")
  fix baseName importName :: string
  assume "startsWith importName ''../''"
  then have "importName \<noteq> []"
    by (cases importName) (auto simp: startsWith_def)
  then show "((goToParentDir baseName, removePrefixMaybe ''../'' importName),
              (baseName, importName)) \<in> measure (\<lambda>(b, i). length i)"
    using \<open>startsWith importName ''../''\<close>
    by (simp add: startsWith_def removePrefixMaybe_def sliceFrom_def clampIndex_def)
qed simp

declare goingUp.simps [simp del]

text \<open>
  The \<^verbatim>\<open>else\<close> branch of lines 210-231: a global name.  The module cache is the only
  state the resolver writes.
\<close>

definition resolveGlobalName :: "globalNames \<Rightarrow> cache \<Rightarrow> string \<Rightarrow> (string, cache) outcome" where
  "resolveGlobalName g moduleCache importName =
     (let resolvedName = lookupGlobal g importName
      in case typeof resolvedName of
           TObject \<Rightarrow>
             Return importName
               (if \<not> truthy (getProp moduleCache importName)
                then moduleCache(importName \<mapsto> resolvedName) else moduleCache)
         | TString \<Rightarrow> Return (stringOf resolvedName) moduleCache
         | TUndefined \<Rightarrow> Throw (UnknownGlobalName importName) moduleCache
         | _ \<Rightarrow> Throw (IllegalGlobalMapping resolvedName) moduleCache)"

definition resolveImportName ::
  "globalNames \<Rightarrow> cache \<Rightarrow> string \<Rightarrow> string \<Rightarrow> (string, cache) outcome" where
  "resolveImportName g moduleCache baseName importName =
     (if \<not> isLegalNormalizedName baseName
      then Throw (IllegalBaseIdentifier baseName) moduleCache
      else if startsWith importName ''/'' then Return importName moduleCache
      else if startsWith importName ''./'' \<or> startsWith importName ''../'' then
        (let baseName1 = goToParentDir baseName
         in if startsWith importName ''./''
            then Return (descend baseName1 (removePrefixMaybe ''./'' importName)) moduleCache
            else (case goingUp baseName1 importName of
                    (baseName2, importName2) \<Rightarrow>
                      Return (descend baseName2 importName2) moduleCache))
      else resolveGlobalName g moduleCache importName)"

fun resolveImportNames ::
  "globalNames \<Rightarrow> cache \<Rightarrow> string \<Rightarrow> string list \<Rightarrow> (string list, cache) outcome" where
  "resolveImportNames g moduleCache baseName [] = Return [] moduleCache"
| "resolveImportNames g moduleCache baseName (importName # rest) =
     (case resolveImportName g moduleCache baseName importName of
        Throw err mc \<Rightarrow> Throw err mc
      | Return name mc \<Rightarrow>
          (case resolveImportNames g mc baseName rest of
             Throw err mc' \<Rightarrow> Throw err mc'
           | Return names mc' \<Rightarrow> Return (name # names) mc'))"

subsection \<open>Loader state, collaborators and callbacks (lines 53-155)\<close>

text \<open>
  The body of a module, once evaluated, is run with \<^verbatim>\<open>require\<close>, a fresh \<^verbatim>\<open>exports\<close>
  object and \<^verbatim>\<open>module\<close>; what the loader keeps of the run is the value of
  \<^verbatim>\<open>module.exports\<close> when the body returns.  A body is therefore modelled by that value
  as a function of what \<^verbatim>\<open>require\<close> answers.
\<close>

type_synonym body = "(string \<Rightarrow> jsval) \<Rightarrow> jsval"

text \<open>
  The callbacks of the loader are closures.  Each is represented by its code and the
  variables it has captured; the two variables a closure assigns to
  (\<^verbatim>\<open>moduleCount\<close> and \<^verbatim>\<open>modules\<close> of lines 68-69) live in a store of cells, so that the
  callbacks of one \<^verbatim>\<open>loadModules\<close> call share them.

  \<^item> \<open>KJoin j i n callback\<close> is the function of lines 72-78 for index \<open>i\<close>, with
    \<open>n = normalizedNames.length\<close> and the cell \<open>j\<close>;
  \<^item> \<open>KStore normalizedName callback\<close> is the function of lines 103-107;
  \<^item> \<open>KRequire hasBody\<close> is the function of lines 34-38;
  \<^item> \<open>KRun importNames body callback\<close> is the function of lines 134-137.
\<close>

datatype kont =
    KJoin nat nat nat "mkont option"
  | KStore string kont
and mkont =
    KRequire bool
  | KRun "string list" body "kont option"

text \<open>
  The state of a loader: the two tables, the cells of the running \<^verbatim>\<open>loadModules\<close>
  calls, the requests that were sent and have not been answered, and two logs of what
  the loader did to the outside: the file names it requested and the argument lists it
  passed to the bodies given to \<^verbatim>\<open>require\<close>.  \<^verbatim>\<open>currentlyLoading\<close> only ever maps a
  name to \<^verbatim>\<open>true\<close>, so it is a set of names.
\<close>

record lstate =
  moduleCache :: cache
  currentlyLoading :: "string set"
  joins :: "nat \<Rightarrow> nat \<times> jsval list"
  nextJoin :: nat
  pending :: "(string \<times> kont) list"
  requests :: "string list"
  called :: "jsval list list"

definition initialState :: lstate where
  "initialState =
     \<lparr>moduleCache = Map.empty, currentlyLoading = {}, joins = (\<lambda>_. (0, [])), nextJoin = 0,
      pending = [], requests = [], called = []\<rparr>"

text \<open>
  What the loader is given: the Global Name Table, whether sending the request for a
  file name throws (lines 96-118), the scan of a source text for the names it requires
  (lines 157-166) and the evaluation of a source text to a body (line 122).  The
  properties proved below hold for every scan and every evaluation.
\<close>

record env =
  globalNames :: globalNames
  sendThrows :: "string \<Rightarrow> bool"
  extractImportNames :: "string \<Rightarrow> string list"
  evalBody :: "string \<Rightarrow> body"

text \<open>\<^verbatim>\<open>modules[i] = value\<close>: an array grows to hold the index; a hole reads as \<^verbatim>\<open>undefined\<close>.\<close>

definition arraySet :: "jsval list \<Rightarrow> nat \<Rightarrow> jsval \<Rightarrow> jsval list" where
  "arraySet xs i v =
     (if i < length xs then xs[i := v]
      else xs @ replicate (i - length xs) JUndefined @ [v])"

definition zipToObject :: "string list \<Rightarrow> jsval list \<Rightarrow> error + cache" where
  "zipToObject keys vals =
     (if length keys \<noteq> length vals then Inl MismatchedZipLengths
      else Inr (fold (\<lambda>(k, v) obj. obj(k \<mapsto> v)) (zip keys vals) Map.empty))"

text \<open>
  Calling a callback.  \<open>invoke\<close> calls a callback of one value, \<open>invokeAll\<close> a callback
  of the module array; \<^verbatim>\<open>runEvaluatedBody\<close> (lines 144-155) is the second half of the
  \<open>KRun\<close> case.
\<close>

fun invoke :: "kont \<Rightarrow> jsval \<Rightarrow> lstate \<Rightarrow> (unit, lstate) outcome"
  and invokeAll :: "mkont \<Rightarrow> jsval list \<Rightarrow> lstate \<Rightarrow> (unit, lstate) outcome" where
  "invoke (KJoin j i n callback) val st =
     (let modules = arraySet (snd (joins st j)) i val;
          moduleCount = fst (joins st j) + 1;
          st1 = st\<lparr>joins := (joins st)(j := (moduleCount, modules))\<rparr>
      in if moduleCount \<ge> n
         then (case callback of Some k \<Rightarrow> invokeAll k modules st1 | None \<Rightarrow> Return () st1)
         else Return () st1)"
| "invoke (KStore normalizedName callback) result st =
     invoke callback result
       (st\<lparr>currentlyLoading := currentlyLoading st - {normalizedName},
           moduleCache := (moduleCache st)(normalizedName \<mapsto> result)\<rparr>)"
| "invokeAll (KRequire hasBody) modules st =
     Return () (if hasBody then st\<lparr>called := called st @ [modules]\<rparr> else st)"
| "invokeAll (KRun importNames body callback) modules st =
     (case zipToObject importNames modules of
        Inl err \<Rightarrow> Throw err st
      | Inr moduleDict \<Rightarrow>
          (let exports = body (getProp moduleDict)
           in case callback of Some k \<Rightarrow> invoke k exports st | None \<Rightarrow> Return () st))"

definition loadModule :: "env \<Rightarrow> string \<Rightarrow> kont \<Rightarrow> lstate \<Rightarrow> (unit, lstate) outcome" where
  "loadModule e normalizedName callback st =
     (case moduleCache st normalizedName of
        Some v \<Rightarrow> invoke callback v st
      | None \<Rightarrow>
          if normalizedName \<in> currentlyLoading st
          then Throw (CycleDetected normalizedName) st
          else (let st1 = st\<lparr>currentlyLoading := insert normalizedName (currentlyLoading st)\<rparr>;
                    fileName = normalizedName @ ''.js''
                in if sendThrows e fileName then Throw (FetchFailure fileName) st1
                   else Return ()
                     (st1\<lparr>pending := pending st1 @ [(normalizedName, callback)],
                          requests := requests st1 @ [fileName]\<rparr>)))"

text \<open>The \<^verbatim>\<open>forEach\<close> of lines 70-79, from index \<open>i\<close> on; a throw ends it.\<close>

fun forEachLoad ::
  "env \<Rightarrow> nat \<Rightarrow> nat \<Rightarrow> mkont option \<Rightarrow> nat \<Rightarrow> string list \<Rightarrow> lstate \<Rightarrow> (unit, lstate) outcome"
  where
  "forEachLoad e j n callback i [] st = Return () st"
| "forEachLoad e j n callback i (normalizedName # rest) st =
     (case loadModule e normalizedName (KJoin j i n callback) st of
        Throw err st1 \<Rightarrow> Throw err st1
      | Return _ st1 \<Rightarrow> forEachLoad e j n callback (Suc i) rest st1)"

definition loadModules ::
  "env \<Rightarrow> string list \<Rightarrow> mkont option \<Rightarrow> lstate \<Rightarrow> (unit, lstate) outcome" where
  "loadModules e normalizedNames callback st =
     (if length normalizedNames = 0
      then (case callback of Some k \<Rightarrow> invokeAll k [] st | None \<Rightarrow> Return () st)
      else (let j = nextJoin st;
                st1 = st\<lparr>joins := (joins st)(j := (0, [])), nextJoin := Suc j\<rparr>
            in forEachLoad e j (length normalizedNames) callback 0 normalizedNames st1))"

definition runEvaluatedModule ::
  "env \<Rightarrow> string \<Rightarrow> body \<Rightarrow> string \<Rightarrow> kont option \<Rightarrow> lstate \<Rightarrow> (unit, lstate) outcome" where
  "runEvaluatedModule e normalizedModuleName body bodySource callback st =
     (let importNames = extractImportNames e bodySource
      in case resolveImportNames (globalNames e) (moduleCache st) normalizedModuleName importNames of
           Throw err mc \<Rightarrow> Throw err (st\<lparr>moduleCache := mc\<rparr>)
         | Return normalizedNames mc \<Rightarrow>
             loadModules e normalizedNames (Some (KRun importNames body callback))
               (st\<lparr>moduleCache := mc\<rparr>))"

definition evaluateRawModuleSource ::
  "env \<Rightarrow> string \<Rightarrow> string \<Rightarrow> kont \<Rightarrow> lstate \<Rightarrow> (unit, lstate) outcome" where
  "evaluateRawModuleSource e normalizedModuleName bodySource callback st =
     runEvaluatedModule e normalizedModuleName (evalBody e bodySource) bodySource
       (Some callback) st"

text \<open>
  The answer to a request (lines 101-109, \<^verbatim>\<open>readyState\<close> 4): the \<open>p\<close>-th unanswered
  request completes with \<open>responseText\<close>.  Requests may be answered in any order.
\<close>

definition respond :: "env \<Rightarrow> nat \<Rightarrow> string \<Rightarrow> lstate \<Rightarrow> (unit, lstate) outcome" where
  "respond e p responseText st =
     (if p < length (pending st)
      then (case pending st ! p of
              (normalizedName, callback) \<Rightarrow>
                evaluateRawModuleSource e normalizedName responseText
                  (KStore normalizedName callback)
                  (st\<lparr>pending := take p (pending st) @ drop (Suc p) (pending st)\<rparr>))
      else Return () st)"

text \<open>\<^verbatim>\<open>e.require\<close> (lines 33-39); \<open>hasBody\<close> says whether a body was passed.\<close>

definition lobrowRequire ::
  "env \<Rightarrow> string list \<Rightarrow> bool \<Rightarrow> lstate \<Rightarrow> (unit, lstate) outcome" where
  "lobrowRequire e importNames hasBody st =
     (case resolveImportNames (globalNames e) (moduleCache st) START_FILE importNames of
        Throw err mc \<Rightarrow> Throw err (st\<lparr>moduleCache := mc\<rparr>)
      | Return normalizedNames mc \<Rightarrow>
          loadModules e normalizedNames (Some (KRequire hasBody)) (st\<lparr>moduleCache := mc\<rparr>))"

subsection \<open>Notions of the specification\<close>

text \<open>
  The specification speaks of the \<^verbatim>\<open>/\<close>-delimited segments of a name.  \<open>segments\<close> splits
  a name at every \<^verbatim>\<open>/\<close>, \<open>joinSlash\<close> joins segments with \<^verbatim>\<open>/\<close>, and a name is
  \<open>ascentOnly\<close> when each of its segments is \<^verbatim>\<open>..\<close>.
\<close>

fun segments :: "string \<Rightarrow> string list" where
  "segments [] = [[]]"
| "segments (c # cs) =
     (if c = CHR ''/'' then [] # segments cs
      else (c # hd (segments cs)) # tl (segments cs))"

fun joinSlash :: "string list \<Rightarrow> string" where
  "joinSlash [] = []"
| "joinSlash [s] = s"
| "joinSlash (s # t # ss) = s @ ''/'' @ joinSlash (t # ss)"

definition ascentOnly :: "string \<Rightarrow> bool" where
  "ascentOnly name = list_all (\<lambda>seg. seg = ''..'') (segments name)"

text \<open>
  Two notions for the analysis of the resolver.  A directory is \<open>plainDir\<close> when it
  neither starts with \<^verbatim>\<open>./\<close> nor is \<^verbatim>\<open>.\<close>; the rest of an import name, after a prefix
  ending in \<^verbatim>\<open>/\<close> was removed, is \<open>cleanRest\<close> when it is not empty, does not end with
  \<^verbatim>\<open>/\<close> and \<^verbatim>\<open>/./\<close> occurs nowhere from the removed \<^verbatim>\<open>/\<close> on.
\<close>

definition plainDir :: "string \<Rightarrow> bool" where
  "plainDir b \<longleftrightarrow> \<not> prefix ''./'' b \<and> b \<noteq> ''.''"

definition cleanRest :: "string \<Rightarrow> bool" where
  "cleanRest r \<longleftrightarrow> indexOf (CHR ''/'' # r) ''/./'' < 0 \<and> r \<noteq> [] \<and> last r \<noteq> CHR ''/''"

subsection \<open>Observing an outcome\<close>





subsection \<open>A small installation\<close>

text \<open>
  A loader whose Global Name Table maps \<^verbatim>\<open>b\<close> to an inline object, whose requests can be
  sent, and whose modules are four source texts: one requires \<^verbatim>\<open>./a\<close>, one requires
  \<^verbatim>\<open>./b\<close>, one requires the global name \<^verbatim>\<open>b\<close>, one sets \<^verbatim>\<open>module.exports\<close> to \<^verbatim>\<open>0\<close>;
  every other text requires nothing and exports an object.  \<open>failingEnv\<close> is the same
  loader when no request can be sent.
\<close>

definition exampleScan :: "string \<Rightarrow> string list" where
  "exampleScan src =
     (if src = ''require(\"./a\")'' then [''./a'']
      else if src = ''require(\"./b\")'' then [''./b'']
      else if src = ''require(\"b\")'' then [''b''] else [])"

definition exampleEval :: "string \<Rightarrow> body" where
  "exampleEval src require =
     (if src = ''module.exports = 0'' then JNum 0 else JObj (length src))"

definition exampleEnv :: env where
  "exampleEnv =
     \<lparr>globalNames = GObject [''b'' \<mapsto> JObj 7], sendThrows = (\<lambda>fileName. False),
      extractImportNames = exampleScan, evalBody = exampleEval\<rparr>"



definition afterRequireB :: lstate where
  "afterRequireB = stateOf (lobrowRequire exampleEnv [''./b''] True initialState)"



section \<open>Properties of the name resolver\<close>

subsection \<open>The string helpers\<close>

lemma startsWith_prefix: "startsWith s p \<longleftrightarrow> prefix p s"
  by (cases s) (auto simp: startsWith_def Let_def)

lemma lastIndexOf_upper: "lastIndexOf s [c] < int (length s)"
  by (induction s) (auto simp: Let_def)

lemma lastIndexOf_neg: "lastIndexOf s [c] < 0 \<longleftrightarrow> c \<notin> set s"
  by (induction s) (auto simp: Let_def)

lemma lastIndexOf_last:
  "s \<noteq> [] \<Longrightarrow> lastIndexOf s [c] = int (length s) - 1 \<longleftrightarrow> last s = c"
proof (induction s)
  case Nil
  then show ?case by simp
next
  case (Cons a s)
  have u: "lastIndexOf s [c] < int (length s)" by (rule lastIndexOf_upper)
  show ?case
  proof (cases "s = []")
    case True
    then show ?thesis by (auto simp: Let_def)
  next
    case False
    with Cons u show ?thesis by (auto simp: Let_def)
  qed
qed

lemma endsWith_last: "endsWith s [c] \<longleftrightarrow> s \<noteq> [] \<and> last s = c"
  using lastIndexOf_last [of s c] lastIndexOf_upper [of s c]
  by (cases "s = []") (auto simp: endsWith_def Let_def)

lemma segments_nonempty: "segments s \<noteq> []"
  by (induction s) auto

lemma joinSlash_segments: "joinSlash (segments s) = s"
proof (induction s)
  case Nil
  then show ?case by simp
next
  case (Cons c s)
  obtain x xs where sx: "segments s = x # xs"
    using segments_nonempty [of s] by (cases "segments s") auto
  with Cons show ?case by (cases xs) auto
qed

lemma segments_single: "CHR ''/'' \<notin> set s \<Longrightarrow> segments s = [s]"
  by (induction s) auto

lemma segments_tl: "tl (segments s) \<noteq> [] \<longleftrightarrow> CHR ''/'' \<in> set s"
  by (induction s) (auto simp: segments_nonempty)

lemma joinSlash_Cons_char: "joinSlash ((c # x) # ys) = c # joinSlash (x # ys)"
  by (cases ys) auto

lemma take_lastIndexOf:
  "CHR ''/'' \<in> set s \<Longrightarrow> take (nat (lastIndexOf s ''/'')) s = joinSlash (butlast (segments s))"
proof (induction s)
  case Nil
  then show ?case by simp
next
  case (Cons c s)
  obtain x xs where sx: "segments s = x # xs"
    using segments_nonempty [of s] by (cases "segments s") auto
  show ?case
  proof (cases "CHR ''/'' \<in> set s")
    case True
    then have nn: "0 \<le> lastIndexOf s ''/''"
      using lastIndexOf_neg [of s "CHR ''/''"] by auto
    from True have xs: "xs \<noteq> []"
      using sx segments_tl [of s] by auto
    then obtain y ys where bl: "butlast (x # xs) = y # ys"
      by (cases xs) auto
    from nn have tk: "take (nat (lastIndexOf s ''/'' + 1)) (c # s) = c # take (nat (lastIndexOf s ''/'')) s"
      by (simp add: nat_add_distrib)
    from Cons.IH [OF True] sx have ih: "take (nat (lastIndexOf s ''/'')) s = joinSlash (butlast (x # xs))"
      by simp
    show ?thesis
    proof (cases "c = CHR ''/''")
      case True
      with nn tk ih sx xs bl show ?thesis by (simp add: Let_def)
    next
      case False
      with nn tk ih sx xs bl show ?thesis
        by (simp add: Let_def joinSlash_Cons_char)
    qed
  next
    case False
    then have "lastIndexOf s ''/'' < 0" using lastIndexOf_neg [of s "CHR ''/''"] by auto
    moreover from False Cons.prems have "c = CHR ''/''" by auto
    ultimately show ?thesis using False by (simp add: Let_def segments_single)
  qed
qed

lemma matchUpTail_segments:
  "matchUpTail r \<Longrightarrow> list_all (\<lambda>seg. seg = ''..'') (segments (''..'' @ r))"
  by (induction r rule: matchUpTail.induct) (auto simp: segments_nonempty)

lemma isOnlyUp_ascentOnly: "isOnlyUp name \<Longrightarrow> ascentOnly name"
  using matchUpTail_segments
  by (cases name rule: isOnlyUp.cases) (auto simp: ascentOnly_def)

lemma ascentOnly_isOnlyUp: "ascentOnly name \<Longrightarrow> isOnlyUp name"
proof (induction "length name" arbitrary: name rule: less_induct)
  case less
  from less.prems have all: "list_all (\<lambda>seg. seg = ''..'') (segments name)"
    by (simp add: ascentOnly_def)
  show ?case
  proof (cases name)
    case Nil
    with all show ?thesis by simp
  next
    case outer: (Cons a t)
    show ?thesis
    proof (cases t)
      case Nil
      with all outer show ?thesis by (auto split: if_splits)
    next
      case inner: (Cons b r)
      from all outer inner have a: "a = CHR ''.''" and b: "b = CHR ''.''"
        and hd: "hd (segments r) = []"
        and tl: "list_all (\<lambda>seg. seg = ''..'') (tl (segments r))"
        by (auto split: if_splits)
      show ?thesis
      proof (cases r)
        case Nil
        with outer inner a b show ?thesis by simp
      next
        case (Cons e r')
        with hd have e: "e = CHR ''/''" by (auto split: if_splits)
        with tl Cons have "ascentOnly r'" by (simp add: ascentOnly_def)
        moreover have "length r' < length name" using outer inner Cons by simp
        ultimately have "isOnlyUp r'" by (rule less.hyps [rotated])
        then show ?thesis using outer inner a b e Cons
          by (cases r' rule: isOnlyUp.cases) auto
      qed
    qed
  qed
qed

lemma isOnlyUp_iff: "isOnlyUp name \<longleftrightarrow> ascentOnly name"
  using isOnlyUp_ascentOnly ascentOnly_isOnlyUp by blast

lemma slice0: "0 \<le> e \<Longrightarrow> slice s 0 e = take (nat e) s"
  by (cases "nat e \<le> length s") (simp_all add: slice_def clampIndex_def min_def)

subsection \<open>Directory ascent\<close>

text \<open>
  C3.  \<^verbatim>\<open>_goToParentDir\<close> follows the directory-ascent rule of the specification: the
  empty name ascends to \<^verbatim>\<open>..\<close>; a name made only of \<^verbatim>\<open>..\<close> segments gets another
  \<^verbatim>\<open>../\<close> in front; every other name loses its last segment, which leaves the empty
  name when the name has no \<^verbatim>\<open>/\<close>.
\<close>

theorem goToParentDir_rule:
  "goToParentDir name =
     (if name = '''' then ''..''
      else if ascentOnly name then ''../'' @ name
      else joinSlash (butlast (segments name)))"
proof -
  have "slice name 0 (lastIndexOf name ''/'') = joinSlash (butlast (segments name))"
    if "\<not> lastIndexOf name ''/'' < 0"
    using that take_lastIndexOf [of name] lastIndexOf_neg [of name "CHR ''/''"]
    by (simp add: slice0)
  moreover have "joinSlash (butlast (segments name)) = ''''" if "lastIndexOf name ''/'' < 0"
    using that lastIndexOf_neg [of name "CHR ''/''"] by (simp add: segments_single)
  ultimately show ?thesis
    by (simp add: goToParentDir_def isOnlyUp_iff Let_def CURRENT_DIRECTORY_def)
qed

theorem goToParentDir_rule_witness:
  "goToParentDir '''' = ''..'' \<and> ascentOnly ''../..'' \<and> goToParentDir ''../..'' = ''../../..''
   \<and> \<not> ascentOnly ''a/b/c'' \<and> goToParentDir ''a/b/c'' = ''a/b'' \<and> goToParentDir ''abc'' = ''''
   \<and> \<not> ascentOnly ''../a'' \<and> goToParentDir ''../a'' = ''..''"
  using goToParentDir_rule [of "''''"] goToParentDir_rule [of "''../..''"]
    goToParentDir_rule [of "''a/b/c''"] goToParentDir_rule [of "''abc''"]
    goToParentDir_rule [of "''../a''"]
  by (simp add: ascentOnly_def)

subsection \<open>Resolution of relative names\<close>

text \<open>
  C2 (as the specification states it).  The specification gives \<^verbatim>\<open>a/x\<close>, \<^verbatim>\<open>x\<close>,
  \<^verbatim>\<open>../x\<close> and \<^verbatim>\<open>../../../x\<close> as the results of resolving \<^verbatim>\<open>../x\<close> against \<^verbatim>\<open>a/b\<close>,
  \<^verbatim>\<open>../x\<close> against \<^verbatim>\<open>a\<close>, \<^verbatim>\<open>../../x\<close> against \<^verbatim>\<open>a\<close> and \<^verbatim>\<open>../x\<close> against \<^verbatim>\<open>../..\<close>.
  None of the four is what the resolver returns.
\<close>

theorem resolveImportName_examples_refuted:
  "resolveImportName (GObject Map.empty) Map.empty ''a/b'' ''../x'' \<noteq> Return ''a/x'' Map.empty
   \<and> resolveImportName (GObject Map.empty) Map.empty ''a'' ''../x'' \<noteq> Return ''x'' Map.empty
   \<and> resolveImportName (GObject Map.empty) Map.empty ''a'' ''../../x'' \<noteq> Return ''../x'' Map.empty
   \<and> resolveImportName (GObject Map.empty) Map.empty ''../..'' ''../x'' \<noteq> Return ''../../../x'' Map.empty"
  by (simp add: resolveImportName_def isLegalNormalizedName_def endsWith_def descend_def
      goingUp.simps startsWith_def removePrefixMaybe_def sliceFrom_def clampIndex_def
      goToParentDir_def CURRENT_DIRECTORY_def slice_def)

text \<open>
  C2 (amended).  The base name is the name of a file: the resolver first goes to the
  directory of that file and only then follows the import.  For every Global Name Table
  and module cache, \<^verbatim>\<open>../x\<close> against \<^verbatim>\<open>a/b\<close> is \<^verbatim>\<open>x\<close>, \<^verbatim>\<open>../x\<close> against \<^verbatim>\<open>a\<close> is
  \<^verbatim>\<open>../x\<close>, \<^verbatim>\<open>../../x\<close> against \<^verbatim>\<open>a\<close> is \<^verbatim>\<open>../../x\<close>, and \<^verbatim>\<open>../x\<close> against \<^verbatim>\<open>../..\<close> is
  \<^verbatim>\<open>../../../../x\<close>; the cache is left as it was.
\<close>

theorem resolveImportName_examples:
  "resolveImportName g mc ''a/b'' ''../x'' = Return ''x'' mc
   \<and> resolveImportName g mc ''a'' ''../x'' = Return ''../x'' mc
   \<and> resolveImportName g mc ''a'' ''../../x'' = Return ''../../x'' mc
   \<and> resolveImportName g mc ''../..'' ''../x'' = Return ''../../../../x'' mc"
  by (simp add: resolveImportName_def isLegalNormalizedName_def endsWith_def descend_def
      goingUp.simps startsWith_def removePrefixMaybe_def sliceFrom_def clampIndex_def
      goToParentDir_def CURRENT_DIRECTORY_def slice_def)

subsection \<open>Illegal base names\<close>

text \<open>
  C8.  A base name that starts with \<^verbatim>\<open>./\<close> or ends with \<^verbatim>\<open>/\<close> makes
  \<^verbatim>\<open>_resolveImportName\<close> throw the error for an illegal base name, whatever the import
  name; the module cache is untouched and the Global Name Table is not consulted.
\<close>

theorem illegal_base:
  "startsWith baseName ''./'' \<or> endsWith baseName ''/'' \<Longrightarrow>
   resolveImportName g mc baseName importName = Throw (IllegalBaseIdentifier baseName) mc"
  by (auto simp: resolveImportName_def isLegalNormalizedName_def)

theorem illegal_base_witness:
  "startsWith ''./foo'' ''./'' \<and> endsWith ''lib/'' ''/''
   \<and> resolveImportName (GObject Map.empty) Map.empty ''./foo'' ''./bar''
       = Throw (IllegalBaseIdentifier ''./foo'') Map.empty
   \<and> resolveImportName (GObject Map.empty) Map.empty ''lib/'' ''/abs''
       = Throw (IllegalBaseIdentifier ''lib/'') Map.empty"
proof -
  have a: "startsWith ''./foo'' ''./''" by (simp add: startsWith_def)
  have b: "endsWith ''lib/'' ''/''" by (simp add: endsWith_def)
  from a have a': "startsWith ''./foo'' ''./'' \<or> endsWith ''./foo'' ''/''" ..
  from b have b': "startsWith ''lib/'' ''./'' \<or> endsWith ''lib/'' ''/''" ..
  show ?thesis using a b illegal_base [OF a'] illegal_base [OF b'] by simp
qed

subsection \<open>Global names\<close>



text \<open>The result of a global name, by the value the Global Name Table gives.\<close>

lemma resolveGlobalName_cases:
  "resolveGlobalName g mc importName =
     (case lookupGlobal g importName of
        JUndefined \<Rightarrow> Throw (UnknownGlobalName importName) mc
      | JStr s \<Rightarrow> Return s mc
      | JNull \<Rightarrow> Return importName
           (if truthy (getProp mc importName) then mc else mc(importName \<mapsto> JNull))
      | JObj r \<Rightarrow> Return importName
           (if truthy (getProp mc importName) then mc else mc(importName \<mapsto> JObj r))
      | v \<Rightarrow> Throw (IllegalGlobalMapping v) mc)"
  by (simp add: resolveGlobalName_def split: jsval.splits)

subsection \<open>Legality of resolved names\<close>

lemma legal_iff:
  "isLegalNormalizedName s \<longleftrightarrow> \<not> prefix ''./'' s \<and> (s = [] \<or> last s \<noteq> CHR ''/'')"
  using endsWith_last [of s "CHR ''/''"]
  by (auto simp: isLegalNormalizedName_def startsWith_prefix)

lemma lastIndexOf_nth:
  "0 \<le> lastIndexOf s [c] \<Longrightarrow> s ! nat (lastIndexOf s [c]) = c"
proof (induction s)
  case Nil
  then show ?case by simp
next
  case (Cons a s)
  show ?case
  proof (cases "0 \<le> lastIndexOf s [c]")
    case True
    with Cons.IH show ?thesis by (simp add: Let_def nat_add_distrib)
  next
    case False
    with Cons.prems show ?thesis by (auto simp: Let_def split: if_splits)
  qed
qed

lemma goToParentDir_plain:
  assumes "\<not> prefix ''./'' b"
  shows "plainDir (goToParentDir b)"
proof -
  have "plainDir (slice b 0 (lastIndexOf b ''/''))" if nn: "0 \<le> lastIndexOf b ''/''"
  proof -
    let ?k = "nat (lastIndexOf b ''/'')"
    have k: "?k < length b" using nn lastIndexOf_upper [of b "CHR ''/''"] by simp
    have sl: "slice b 0 (lastIndexOf b ''/'') = take ?k b" using nn by (simp add: slice0)
    have nth: "b ! ?k = CHR ''/''" using nn by (rule lastIndexOf_nth)
    have dec: "b = take ?k b @ CHR ''/'' # drop (Suc ?k) b"
      using id_take_nth_drop [OF k] nth by simp
    have "\<not> prefix ''./'' (take ?k b)"
      using assms take_is_prefix [of ?k b] prefix_order.trans by blast
    moreover have "take ?k b \<noteq> ''.''"
    proof
      assume "take ?k b = ''.''"
      with dec have "b = ''./'' @ drop (Suc ?k) b" by simp
      then have "prefix ''./'' b" using prefixI by blast
      with assms show False by simp
    qed
    ultimately show ?thesis by (simp add: sl plainDir_def)
  qed
  then show ?thesis
    by (auto simp: goToParentDir_def Let_def CURRENT_DIRECTORY_def plainDir_def)
qed

lemma plainDir_not_prefix: "plainDir b \<Longrightarrow> \<not> prefix ''./'' b"
  by (simp add: plainDir_def)

lemma indexOf_neg_Cons: "indexOf (c # cs) p < 0 \<Longrightarrow> indexOf cs p < 0"
  by (auto simp: Let_def split: if_splits)

lemma indexOf_neg_append: "indexOf (xs @ ys) p < 0 \<Longrightarrow> indexOf ys p < 0"
  by (induction xs) (auto dest: indexOf_neg_Cons simp del: indexOf.simps)

lemma cleanRest_after:
  assumes "indexOf imp ''/./'' < 0" "\<not> endsWith imp ''/''" "imp = pre @ CHR ''/'' # r"
  shows "cleanRest r"
proof -
  from assms(1,3) have "indexOf (CHR ''/'' # r) ''/./'' < 0"
    using indexOf_neg_append [of pre "CHR ''/'' # r" "''/./''"] by simp
  moreover from assms(2,3) have "r \<noteq> [] \<and> last r \<noteq> CHR ''/''"
    by (auto simp: endsWith_last split: if_splits)
  ultimately show ?thesis by (simp add: cleanRest_def)
qed

lemma cleanRest_not_dot: "cleanRest r \<Longrightarrow> \<not> prefix ''./'' r"
  by (auto simp: cleanRest_def prefix_def Let_def split: if_splits)

lemma removePrefix_decomp:
  assumes "startsWith s p"
  shows "s = p @ removePrefixMaybe p s"
proof -
  from assms have "prefix p s" by (simp add: startsWith_prefix)
  then obtain zs where "s = p @ zs" by (auto simp: prefix_def)
  moreover from assms have "indexOf s p = 0" by (simp add: startsWith_def)
  ultimately show ?thesis
    by (simp add: removePrefixMaybe_def sliceFrom_def clampIndex_def)
qed

lemma goingUp_inv:
  "plainDir b \<Longrightarrow> cleanRest imp \<Longrightarrow> goingUp b imp = (b', r) \<Longrightarrow> plainDir b' \<and> cleanRest r"
proof (induction b imp rule: goingUp.induct)
  case (1 baseName importName)
  show ?case
  proof (cases "startsWith importName ''../''")
    case True
    then have dec: "importName = ''..'' @ CHR ''/'' # removePrefixMaybe ''../'' importName"
      using removePrefix_decomp [of importName "''../''"] by simp
    have ne: "\<not> endsWith importName ''/''"
      using "1.prems"(2) by (simp add: cleanRest_def endsWith_last)
    have "indexOf importName ''/./'' < 0"
      using "1.prems"(2) indexOf_neg_Cons by (auto simp: cleanRest_def simp del: indexOf.simps)
    then have c: "cleanRest (removePrefixMaybe ''../'' importName)"
      using ne dec by (rule cleanRest_after)
    have p: "plainDir (goToParentDir baseName)"
      using "1.prems"(1) by (simp add: goToParentDir_plain plainDir_not_prefix)
    from "1.prems"(3) True
    have "goingUp (goToParentDir baseName) (removePrefixMaybe ''../'' importName) = (b', r)"
      by (simp add: goingUp.simps [of baseName importName])
    with "1.IH" [OF True p c] show ?thesis by simp
  next
    case False
    with "1.prems" show ?thesis by (simp add: goingUp.simps [of baseName importName])
  qed
qed

lemma descend_legal:
  assumes "plainDir b" "cleanRest r"
  shows "isLegalNormalizedName (descend b r)"
proof (cases b)
  case Nil
  have "\<not> prefix ''./'' r" using assms(2) by (rule cleanRest_not_dot)
  moreover have "last r \<noteq> CHR ''/''" using assms(2) unfolding cleanRest_def by blast
  ultimately show ?thesis using Nil by (simp add: legal_iff descend_def)
next
  case (Cons c cs)
  have r: "r \<noteq> []" "last r \<noteq> CHR ''/''" using assms(2) unfolding cleanRest_def by blast+
  have nb: "\<not> prefix ''./'' (c # cs)" "c # cs \<noteq> ''.''"
    using assms(1) Cons unfolding plainDir_def by blast+
  have "\<not> prefix ''./'' ((c # cs) @ ''/'' @ r)"
  proof (cases cs)
    case Nil
    with nb(2) show ?thesis by simp
  next
    case (Cons d ds)
    with nb(1) show ?thesis by simp
  qed
  moreover have "last ((c # cs) @ ''/'' @ r) = last r" using r(1) by simp
  ultimately show ?thesis using r(2) Cons
    by (simp only: legal_iff descend_def) simp
qed

text \<open>
  C7 (as the specification states it).  Against the legal base name \<^verbatim>\<open>a\<close>, the
  absolute import \<^verbatim>\<open>/lib/\<close> is returned unchanged and ends with \<^verbatim>\<open>/\<close>, and the global
  name \<^verbatim>\<open>lib\<close>, mapped to the string \<^verbatim>\<open>./lib\<close>, resolves to that string, which starts
  with \<^verbatim>\<open>./\<close>.
\<close>

theorem resolved_name_illegal:
  "isLegalNormalizedName ''a''
   \<and> resolveImportName (GObject [''lib'' \<mapsto> JStr ''./lib'']) Map.empty ''a'' ''/lib/''
       = Return ''/lib/'' Map.empty
   \<and> endsWith ''/lib/'' ''/''
   \<and> resolveImportName (GObject [''lib'' \<mapsto> JStr ''./lib'']) Map.empty ''a'' ''lib''
       = Return ''./lib'' Map.empty
   \<and> startsWith ''./lib'' ''./''"
  by (simp add: resolveImportName_def isLegalNormalizedName_def endsWith_def
      startsWith_def resolveGlobalName_def getProp_def)

text \<open>
  C7 (amended).  The resolver checks its base name, not its result.  Against a legal
  base name, an import name that does not end with \<^verbatim>\<open>/\<close> and does not contain \<^verbatim>\<open>/./\<close>
  resolves to a name that neither starts with \<^verbatim>\<open>./\<close> nor ends with \<^verbatim>\<open>/\<close>, provided
  that a string the Global Name Table gives for it is itself such a name.
\<close>

theorem resolved_name_legal:
  assumes legal: "isLegalNormalizedName baseName"
    and noSlash: "\<not> endsWith importName ''/''"
    and noDot: "indexOf importName ''/./'' < 0"
    and table: "\<forall>s. lookupGlobal g importName = JStr s \<longrightarrow> isLegalNormalizedName s"
    and res: "resolveImportName g mc baseName importName = Return name mc'"
  shows "isLegalNormalizedName name"
proof -
  have dir: "plainDir (goToParentDir baseName)"
    using legal by (simp add: goToParentDir_plain legal_iff)
  consider (abs) "startsWith importName ''/''"
    | (sib) "\<not> startsWith importName ''/''" "startsWith importName ''./''"
    | (up) "\<not> startsWith importName ''/''" "\<not> startsWith importName ''./''"
        "startsWith importName ''../''"
    | (bare) "\<not> startsWith importName ''/''" "\<not> startsWith importName ''./''"
        "\<not> startsWith importName ''../''"
    by blast
  then show ?thesis
  proof cases
    case abs
    with res legal have "name = importName" by (simp add: resolveImportName_def)
    moreover from abs have "\<not> prefix ''./'' importName"
      by (auto simp: startsWith_prefix prefix_def)
    ultimately show ?thesis using noSlash by (simp add: isLegalNormalizedName_def startsWith_prefix)
  next
    case sib
    from sib(2) have "importName = ''.'' @ CHR ''/'' # removePrefixMaybe ''./'' importName"
      using removePrefix_decomp [of importName "''./''"] by simp
    with noDot noSlash have "cleanRest (removePrefixMaybe ''./'' importName)"
      by (rule cleanRest_after)
    with dir have "isLegalNormalizedName
        (descend (goToParentDir baseName) (removePrefixMaybe ''./'' importName))"
      by (rule descend_legal)
    with res legal sib show ?thesis by (simp add: resolveImportName_def)
  next
    case up
    obtain b' r where g: "goingUp (goToParentDir baseName) importName = (b', r)"
      by (cases "goingUp (goToParentDir baseName) importName") auto
    from up(3) have dec: "importName = ''..'' @ CHR ''/'' # removePrefixMaybe ''../'' importName"
      using removePrefix_decomp [of importName "''../''"] by simp
    with noDot noSlash have c: "cleanRest (removePrefixMaybe ''../'' importName)"
      by (rule cleanRest_after)
    from g up(3)
    have "goingUp (goToParentDir (goToParentDir baseName)) (removePrefixMaybe ''../'' importName) = (b', r)"
      by (simp add: goingUp.simps [of "goToParentDir baseName" importName])
    moreover have "plainDir (goToParentDir (goToParentDir baseName))"
      using dir by (simp add: goToParentDir_plain plainDir_not_prefix)
    ultimately have "plainDir b' \<and> cleanRest r" using c goingUp_inv by blast
    then have "isLegalNormalizedName (descend b' r)" by (simp add: descend_legal)
    with res legal up g show ?thesis by (simp add: resolveImportName_def)
  next
    case bare
    with res legal have rg: "resolveGlobalName g mc importName = Return name mc'"
      by (simp add: resolveImportName_def)
    show ?thesis
    proof (cases "lookupGlobal g importName")
      case (JStr s)
      with rg table show ?thesis by (simp add: resolveGlobalName_def)
    next
      case JNull
      with rg bare(2) noSlash show ?thesis
        by (auto simp: resolveGlobalName_def isLegalNormalizedName_def)
    next
      case (JObj n)
      with rg bare(2) noSlash show ?thesis
        by (auto simp: resolveGlobalName_def isLegalNormalizedName_def)
    qed (use rg in \<open>simp_all add: resolveGlobalName_def\<close>)
  qed
qed

theorem resolved_name_legal_witness:
  "isLegalNormalizedName ''a/b'' \<and> \<not> endsWith ''../x'' ''/'' \<and> indexOf ''../x'' ''/./'' < 0
   \<and> resolveImportName (GObject Map.empty) Map.empty ''a/b'' ''../x'' = Return ''x'' Map.empty
   \<and> isLegalNormalizedName ''x''"
proof -
  have l: "isLegalNormalizedName ''a/b''"
    by (simp add: isLegalNormalizedName_def endsWith_def startsWith_def)
  have s: "\<not> endsWith ''../x'' ''/''" by (simp add: endsWith_def)
  have d: "indexOf ''../x'' ''/./'' < 0" by simp
  have t: "\<forall>s. lookupGlobal (GObject Map.empty) ''../x'' = JStr s \<longrightarrow> isLegalNormalizedName s"
    by (simp add: getProp_def)
  have r: "resolveImportName (GObject Map.empty) Map.empty ''a/b'' ''../x'' = Return ''x'' Map.empty"
    by (simp add: resolveImportName_def isLegalNormalizedName_def endsWith_def descend_def
      goingUp.simps startsWith_def removePrefixMaybe_def sliceFrom_def clampIndex_def
      goToParentDir_def CURRENT_DIRECTORY_def slice_def)
  from resolved_name_legal [OF l s d t r] l s d r show ?thesis by simp
qed

section \<open>Properties of the loader\<close>

subsection \<open>Calling callbacks\<close>





subsection \<open>The loads of one call\<close>










subsection \<open>Reports in any order\<close>












subsection \<open>Evaluating the small installation\<close>

lemmas resolver_eval =
  resolveImportName_def isLegalNormalizedName_def endsWith_def startsWith_def
  goToParentDir_def CURRENT_DIRECTORY_def START_FILE_def removePrefixMaybe_def sliceFrom_def
  clampIndex_def slice_def descend_def resolveGlobalName_def getProp_def

lemmas loader_eval =
  lobrowRequire_def respond_def evaluateRawModuleSource_def runEvaluatedModule_def
  loadModules_def loadModule_def zipToObject_def arraySet_def Let_def
  exampleEnv_def exampleScan_def exampleEval_def initialState_def



subsection \<open>Fork and join\<close>



subsection \<open>A second request for the same name\<close>




subsection \<open>Cycles\<close>




subsection \<open>The in-flight marker\<close>




subsection \<open>Inline modules of the Global Name Table\<close>

text \<open>
  C9.  The specification stores an inline module under its global name only when that
  name is not cached yet.  The resolver tests \<^verbatim>\<open>!moduleCache[importName]\<close> (line 220),
  while \<^verbatim>\<open>loadModule\<close> tests \<^verbatim>\<open>moduleCache.hasOwnProperty\<close> (line 86): a name that is
  cached with the value \<^verbatim>\<open>0\<close> counts as cached for the loader and is overwritten by the
  resolver.  Here the module \<^verbatim>\<open>b.js\<close> sets \<^verbatim>\<open>module.exports = 0\<close> and is loaded as
  \<^verbatim>\<open>./b\<close>; a later \<^verbatim>\<open>require(["b"])\<close> replaces the cached \<^verbatim>\<open>0\<close> by the inline object of
  the Global Name Table.
\<close>

theorem preseed_overwrites:
  "moduleCache (stateOf (respond exampleEnv 0 ''module.exports = 0'' afterRequireB)) ''b''
     = Some (JNum 0)
   \<and> resolveImportName (globalNames exampleEnv)
        (moduleCache (stateOf (respond exampleEnv 0 ''module.exports = 0'' afterRequireB)))
        START_FILE ''b''
     = Return ''b''
        ((moduleCache (stateOf (respond exampleEnv 0 ''module.exports = 0'' afterRequireB)))
           (''b'' \<mapsto> JObj 7))
   \<and> moduleCache (stateOf (lobrowRequire exampleEnv [''b''] True
        (stateOf (respond exampleEnv 0 ''module.exports = 0'' afterRequireB)))) ''b''
     = Some (JObj 7)
   \<and> resolveImportName (GObject [''foo'' \<mapsto> JObj 1]) [''foo'' \<mapsto> JNum 0] START_FILE ''foo''
     = Return ''foo'' [''foo'' \<mapsto> JObj 1]"
  by (simp add: afterRequireB_def resolver_eval loader_eval)

end
